theory Spec2Isabelle
  imports Main "HOL-Library.Word"
begin

section \<open>Basic types\<close>

text \<open>
  Modelled from the spec: \<open>dimension_type\<close> (declared in a header that is not among the
  sources), the axis index, "an unsigned integer"; it is taken at 64 bits, the width of
  \<open>std::size_t\<close> on the usual platforms. Pointers to nodes (\<open>Base_ptr\<close>, \<open>Link_type\<close>,
  \<open>node_ptr\<close>) are addresses, with 0 as the null pointer.
\<close>

type_synonym dimension_type = "64 word"
type_synonym addr = nat

text \<open>
  Modelled from the spec: the rank types \<open>Static_rank<N>\<close> and \<open>Dynamic_rank\<close> (their header
  is not among the sources). The spec: "static rank stores nothing and returns a
  constant; dynamic rank stores a value". \<open>rank()\<close> returns the number of dimensions.
\<close>

datatype rank_type = Static_rank dimension_type | Dynamic_rank dimension_type

fun rank_call :: "rank_type \<Rightarrow> dimension_type" where
  "rank_call (Static_rank n) = n"
| "rank_call (Dynamic_rank n) = n"

text \<open>
  Modelled from the spec: the tag types \<open>relaxed_invariant_tag\<close> and
  \<open>strict_invariant_tag\<close> (declared outside the sources), the "two invariant flavors"
  of the spec. \<open>Container::mode_type::invariant_category\<close> is one of them and selects
  the overload of \<open>left_traversal\<close>.
\<close>

datatype invariant_category = relaxed_invariant_tag | strict_invariant_tag

section \<open>The equal iterator (spatial_equal.hpp)\<close>

text \<open>
  \<open>equal_key<Container>\<close> derives from the container's comparator and stores the
  model key. The comparator is a functor called as \<open>cmp(dim, x, y)\<close>.
\<close>

record 'k equal_key =
  comp :: "dimension_type \<Rightarrow> 'k \<Rightarrow> 'k \<Rightarrow> bool"
  model :: 'k

text \<open>
  The accessor \<open>const_key(node)\<close> (spatial_node.hpp) returns the key stored in a node;
  the functions below take it as the parameter \<open>const_key\<close>.
\<close>

definition right_traversal ::
  "(addr \<Rightarrow> 'k) \<Rightarrow> addr \<Rightarrow> dimension_type \<Rightarrow> rank_type \<Rightarrow> 'k equal_key \<Rightarrow> bool" where
  "right_traversal const_key node dim rank equal =
     (\<not> comp equal dim (model equal) (const_key node))"

text \<open>
  The loop of \<open>stop_traversal\<close>: \<open>i\<close> advances while it is below the rank and the two
  keys are not ordered either way on axis \<open>i\<close>; the value of \<open>i\<close> on exit is returned.
\<close>

function stop_traversal_loop ::
  "(dimension_type \<Rightarrow> 'k \<Rightarrow> 'k \<Rightarrow> bool) \<Rightarrow> 'k \<Rightarrow> 'k \<Rightarrow> dimension_type \<Rightarrow> dimension_type
     \<Rightarrow> dimension_type" where
  "stop_traversal_loop cmp key mdl r i =
     (if i < r \<and> \<not> cmp i key mdl \<and> \<not> cmp i mdl key
      then stop_traversal_loop cmp key mdl r (i + 1)
      else i)"
  by pat_completeness auto
termination
proof (relation "measure (\<lambda>(cmp, key, mdl, r, i). unat r - unat i)")
  show "wf (measure (\<lambda>(cmp :: dimension_type \<Rightarrow> 'k \<Rightarrow> 'k \<Rightarrow> bool, key :: 'k, mdl :: 'k,
                       r :: dimension_type, i :: dimension_type). unat r - unat i))"
    by simp
next
  fix cmp :: "dimension_type \<Rightarrow> 'k \<Rightarrow> 'k \<Rightarrow> bool" and key mdl :: 'k and r i :: dimension_type
  assume "i < r \<and> \<not> cmp i key mdl \<and> \<not> cmp i mdl key"
  then have lt: "unat i < unat r"
    by (simp add: word_less_nat_alt)
  have "unat r < 2 ^ 64"
    using unsigned_less [of r] by simp
  with lt have "unat i + 1 < 2 ^ 64"
    by simp
  then have "unat (i + 1) = unat i + 1"
    by (simp add: unat_word_ariths)
  with lt show "((cmp, key, mdl, r, i + 1), (cmp, key, mdl, r, i))
      \<in> measure (\<lambda>(cmp, key, mdl, r, i). unat r - unat i)"
    by simp
qed

declare stop_traversal_loop.simps [simp del]

definition stop_traversal ::
  "(addr \<Rightarrow> 'k) \<Rightarrow> addr \<Rightarrow> rank_type \<Rightarrow> 'k equal_key \<Rightarrow> bool" where
  "stop_traversal const_key node rank equal =
     (stop_traversal_loop (comp equal) (const_key node) (model equal) (rank_call rank) 0
        = rank_call rank)"

text \<open>The three overloads of \<open>left_traversal\<close>: one per tag, and the dispatcher.\<close>

definition left_traversal_relaxed ::
  "(addr \<Rightarrow> 'k) \<Rightarrow> addr \<Rightarrow> dimension_type \<Rightarrow> 'k equal_key \<Rightarrow> bool" where
  "left_traversal_relaxed const_key node dim equal =
     (\<not> comp equal dim (const_key node) (model equal))"

definition left_traversal_strict ::
  "(addr \<Rightarrow> 'k) \<Rightarrow> addr \<Rightarrow> dimension_type \<Rightarrow> 'k equal_key \<Rightarrow> bool" where
  "left_traversal_strict const_key node dim equal =
     comp equal dim (model equal) (const_key node)"

definition left_traversal ::
  "invariant_category \<Rightarrow> (addr \<Rightarrow> 'k) \<Rightarrow> addr \<Rightarrow> dimension_type \<Rightarrow> rank_type
     \<Rightarrow> 'k equal_key \<Rightarrow> bool" where
  "left_traversal category const_key node dim rank equal =
     (case category of
        relaxed_invariant_tag \<Rightarrow> left_traversal_relaxed const_key node dim equal
      | strict_invariant_tag \<Rightarrow> left_traversal_strict const_key node dim equal)"

section \<open>The tree base (spatial_kdtree_base.hpp)\<close>

text \<open>
  Trees and nodes live in a store indexed by address, so that pointer equality and
  the writes through \<open>header().parent->parent\<close> are those of the code. A tree object is
  identified by the address of its header node \<open>&m_impl.header()\<close>.

  Modelled from the spec: \<open>Node_base\<close> and \<open>Header_node\<close> (spatial_node.hpp is not among
  the sources). The spec: a node has "\<open>parent\<close>, \<open>left\<close>, \<open>right\<close> links". The header node
  has one field more, \<open>leftmost\<close>, which \<open>Kdtree_base\<close> reads and writes beside the
  three links; it is kept in a map of its own.
\<close>

record node_base =
  parent :: addr
  left :: addr
  right :: addr

text \<open>
  The members of \<open>Implementation\<close> other than the header node: the rank (its base
  class), the comparator, and the node allocator held by the compressed header
  (\<open>header.base()\<close>).
\<close>

record ('c, 'a) implementation =
  impl_rank :: rank_type
  impl_compare :: 'c
  impl_node_allocator :: 'a

record ('c, 'a) store =
  impls :: "addr \<Rightarrow> ('c, 'a) implementation"
  bases :: "addr \<Rightarrow> node_base"
  leftmosts :: "addr \<Rightarrow> addr"

definition set_parent :: "addr \<Rightarrow> addr \<Rightarrow> ('c, 'a) store \<Rightarrow> ('c, 'a) store" where
  "set_parent p v s = s\<lparr>bases := (bases s)(p := (bases s p)\<lparr>parent := v\<rparr>)\<rparr>"

definition set_left :: "addr \<Rightarrow> addr \<Rightarrow> ('c, 'a) store \<Rightarrow> ('c, 'a) store" where
  "set_left p v s = s\<lparr>bases := (bases s)(p := (bases s p)\<lparr>left := v\<rparr>)\<rparr>"

definition set_right :: "addr \<Rightarrow> addr \<Rightarrow> ('c, 'a) store \<Rightarrow> ('c, 'a) store" where
  "set_right p v s = s\<lparr>bases := (bases s)(p := (bases s p)\<lparr>right := v\<rparr>)\<rparr>"

definition set_leftmost :: "addr \<Rightarrow> addr \<Rightarrow> ('c, 'a) store \<Rightarrow> ('c, 'a) store" where
  "set_leftmost p v s = s\<lparr>leftmosts := (leftmosts s)(p := v)\<rparr>"

text \<open>\<open>Implementation::initialize\<close>, for the tree whose header is at \<open>this\<close>.\<close>

definition initialize :: "addr \<Rightarrow> ('c, 'a) store \<Rightarrow> ('c, 'a) store" where
  "initialize this s =
     set_leftmost this this (set_right this this (set_left this this (set_parent this this s)))"

text \<open>
  The constructor \<open>Kdtree_base(rank, compare, alloc)\<close> building a tree at address
  \<open>this\<close>: the members are stored and the header is initialised.
\<close>

definition Kdtree_base :: "addr \<Rightarrow> rank_type \<Rightarrow> 'c \<Rightarrow> 'a \<Rightarrow> ('c, 'a) store \<Rightarrow> ('c, 'a) store" where
  "Kdtree_base this rank compare alloc s =
     initialize this
       (s\<lparr>impls := (impls s)(this :=
            \<lparr>impl_rank = rank, impl_compare = compare, impl_node_allocator = alloc\<rparr>)\<rparr>)"

text \<open>The accessors.\<close>

definition get_header :: "addr \<Rightarrow> addr" where
  "get_header this = this"

definition get_root :: "addr \<Rightarrow> ('c, 'a) store \<Rightarrow> addr" where
  "get_root this s = parent (bases s this)"

definition get_rightmost :: "addr \<Rightarrow> ('c, 'a) store \<Rightarrow> addr" where
  "get_rightmost this s = right (bases s this)"

definition get_leftmost :: "addr \<Rightarrow> ('c, 'a) store \<Rightarrow> addr" where
  "get_leftmost this s = leftmosts s this"

definition rank :: "addr \<Rightarrow> ('c, 'a) store \<Rightarrow> rank_type" where
  "rank this s = impl_rank (impls s this)"

definition dimension :: "addr \<Rightarrow> ('c, 'a) store \<Rightarrow> dimension_type" where
  "dimension this s = rank_call (rank this s)"

definition compare :: "addr \<Rightarrow> ('c, 'a) store \<Rightarrow> 'c" where
  "compare this s = impl_compare (impls s this)"

definition node_allocator :: "addr \<Rightarrow> ('c, 'a) store \<Rightarrow> 'a" where
  "node_allocator this s = impl_node_allocator (impls s this)"

definition empty :: "addr \<Rightarrow> ('c, 'a) store \<Rightarrow> bool" where
  "empty this s = (get_root this s = get_header this)"

text \<open>
  Modelled from the spec: \<open>template_member_swap<T>::do_it(a, b)\<close> (its header is not among
  the sources) exchanges two members of type \<open>T\<close>. The spec: "\<open>swap\<close> exchanges the two
  trees' rank, comparator, allocator". The three calls of \<open>swap\<close> apply it to the ranks,
  the comparators and the node allocators.
\<close>

definition swap_rank :: "addr \<Rightarrow> addr \<Rightarrow> ('c, 'a) store \<Rightarrow> ('c, 'a) store" where
  "swap_rank this other s =
     (let a = impl_rank (impls s this); b = impl_rank (impls s other);
          s = s\<lparr>impls := (impls s)(this := (impls s this)\<lparr>impl_rank := b\<rparr>)\<rparr>
      in s\<lparr>impls := (impls s)(other := (impls s other)\<lparr>impl_rank := a\<rparr>)\<rparr>)"

definition swap_compare :: "addr \<Rightarrow> addr \<Rightarrow> ('c, 'a) store \<Rightarrow> ('c, 'a) store" where
  "swap_compare this other s =
     (let a = impl_compare (impls s this); b = impl_compare (impls s other);
          s = s\<lparr>impls := (impls s)(this := (impls s this)\<lparr>impl_compare := b\<rparr>)\<rparr>
      in s\<lparr>impls := (impls s)(other := (impls s other)\<lparr>impl_compare := a\<rparr>)\<rparr>)"

definition swap_node_allocator :: "addr \<Rightarrow> addr \<Rightarrow> ('c, 'a) store \<Rightarrow> ('c, 'a) store" where
  "swap_node_allocator this other s =
     (let a = impl_node_allocator (impls s this); b = impl_node_allocator (impls s other);
          s = s\<lparr>impls := (impls s)(this := (impls s this)\<lparr>impl_node_allocator := b\<rparr>)\<rparr>
      in s\<lparr>impls := (impls s)(other := (impls s other)\<lparr>impl_node_allocator := a\<rparr>)\<rparr>)"

text \<open>\<open>std::swap\<close> on one link field of the two headers.\<close>

definition swap_parent :: "addr \<Rightarrow> addr \<Rightarrow> ('c, 'a) store \<Rightarrow> ('c, 'a) store" where
  "swap_parent this other s =
     (let a = parent (bases s this); b = parent (bases s other)
      in set_parent other a (set_parent this b s))"

definition swap_right :: "addr \<Rightarrow> addr \<Rightarrow> ('c, 'a) store \<Rightarrow> ('c, 'a) store" where
  "swap_right this other s =
     (let a = right (bases s this); b = right (bases s other)
      in set_right other a (set_right this b s))"

definition swap_leftmost :: "addr \<Rightarrow> addr \<Rightarrow> ('c, 'a) store \<Rightarrow> ('c, 'a) store" where
  "swap_leftmost this other s =
     (let a = leftmosts s this; b = leftmosts s other
      in set_leftmost other a (set_leftmost this b s))"

text \<open>
  \<open>Kdtree_base::swap\<close>, statement by statement: the early return when both trees are
  empty, the three member swaps, the stitching of an empty header to the other tree,
  the three swaps of header links, and the two relinks of a root to its new header.
\<close>

definition stitch :: "addr \<Rightarrow> addr \<Rightarrow> ('c, 'a) store \<Rightarrow> ('c, 'a) store" where
  "stitch this other s =
     (if parent (bases s this) = this
      then set_leftmost this other (set_right this other (set_parent this other s))
      else if parent (bases s other) = other
      then set_leftmost other this (set_right other this (set_parent other this s))
      else s)"

definition relink :: "addr \<Rightarrow> ('c, 'a) store \<Rightarrow> ('c, 'a) store" where
  "relink this s =
     (if parent (bases s this) \<noteq> this then set_parent (parent (bases s this)) this s else s)"

definition swap :: "addr \<Rightarrow> addr \<Rightarrow> ('c, 'a) store \<Rightarrow> ('c, 'a) store" where
  "swap this other s =
     (if empty this s \<and> empty other s then s
      else
        let s = swap_rank this other s;
            s = swap_compare this other s;
            s = swap_node_allocator this other s;
            s = stitch this other s;
            s = swap_parent this other s;
            s = swap_right this other s;
            s = swap_leftmost this other s;
            s = relink this s
        in relink other s)"

text \<open>
  The statements of \<open>swap\<close> that follow the three member swaps, as one function; \<open>swap\<close>
  is the early return, the member swaps, and then this.
\<close>

definition swap_links :: "addr \<Rightarrow> addr \<Rightarrow> ('c, 'a) store \<Rightarrow> ('c, 'a) store" where
  "swap_links this other s =
     relink other (relink this (swap_leftmost this other (swap_right this other
       (swap_parent this other (stitch this other s)))))"

text \<open>
  What a header designates: nothing when the tree is empty, otherwise its root, its
  rightmost and its leftmost node.
\<close>

definition header_contents :: "addr \<Rightarrow> ('c, 'a) store \<Rightarrow> (addr \<times> addr \<times> addr) option" where
  "header_contents this s =
     (if empty this s then None
      else Some (get_root this s, get_rightmost this s, get_leftmost this s))"

subsection \<open>Node creation\<close>

text \<open>
  The node allocator is a collaborator supplied by the user. Its state is the list of
  blocks handed out and not yet given back, each with the number of nodes asked for;
  \<open>allocate\<close> returns a pointer or throws, as decided by the parameter \<open>allocate\<close>.
  Constructing the key in the node runs the key's copy constructor, which returns the
  copy or throws (parameter \<open>copy_key\<close>). Exceptions are values of type \<open>'e\<close>.
\<close>

record 'k node_memory =
  allocated :: "(addr \<times> nat) list"
  key_field :: "addr \<Rightarrow> 'k option"

record safe_allocator =
  ptr :: addr

text \<open>\<open>safe_allocator(a)\<close>: \<open>ptr(a.allocate(1))\<close>.\<close>

definition safe_allocator_ctor ::
  "((addr \<times> nat) list \<Rightarrow> nat \<Rightarrow> 'e + addr) \<Rightarrow> 'k node_memory
     \<Rightarrow> ('e + safe_allocator) \<times> 'k node_memory" where
  "safe_allocator_ctor allocate m =
     (case allocate (allocated m) 1 of
        Inl e \<Rightarrow> (Inl e, m)
      | Inr p \<Rightarrow> (Inr \<lparr>ptr = p\<rparr>, m\<lparr>allocated := (p, 1) # allocated m\<rparr>))"

text \<open>\<open>~safe_allocator()\<close>: \<open>if (ptr) alloc.deallocate(ptr, 1)\<close>.\<close>

definition safe_allocator_dtor :: "safe_allocator \<Rightarrow> 'k node_memory \<Rightarrow> 'k node_memory" where
  "safe_allocator_dtor safe m =
     (if ptr safe \<noteq> 0 then m\<lparr>allocated := remove1 (ptr safe, 1) (allocated m)\<rparr> else m)"

text \<open>\<open>release()\<close>: returns the pointer and clears it.\<close>

definition release :: "safe_allocator \<Rightarrow> addr \<times> safe_allocator" where
  "release safe = (ptr safe, safe\<lparr>ptr := 0\<rparr>)"

text \<open>
  \<open>create_node(x)\<close>. The destructor of \<open>safe\<close> runs on both ways out of the scope: when
  \<open>construct\<close> throws, and after \<open>release\<close> on the normal return.
\<close>

definition create_node ::
  "((addr \<times> nat) list \<Rightarrow> nat \<Rightarrow> 'e + addr) \<Rightarrow> ('k \<Rightarrow> 'e + 'k) \<Rightarrow> 'k \<Rightarrow> 'k node_memory
     \<Rightarrow> ('e + addr) \<times> 'k node_memory" where
  "create_node allocate copy_key x m =
     (case safe_allocator_ctor allocate m of
        (Inl e, m1) \<Rightarrow> (Inl e, m1)
      | (Inr safe, m1) \<Rightarrow>
          (case copy_key x of
             Inl e \<Rightarrow> (Inl e, safe_allocator_dtor safe m1)
           | Inr k \<Rightarrow>
               let m2 = m1\<lparr>key_field := (key_field m1)(ptr safe := Some k)\<rparr>;
                   (p, safe') = release safe
               in (Inr p, safe_allocator_dtor safe' m2)))"

section \<open>Begin and end of the equal iterator\<close>

text \<open>
  The iterator holds the rank, the node, the dimension of the node (the three members
  of its base class \<open>Bidirectional_iterator\<close>) and the query. The container is a tree of
  the store whose comparator is a functor on keys; \<open>key_comp()\<close> is its comparator, which
  \<open>Kdtree_base\<close> returns under the name \<open>compare()\<close>.
\<close>

record 'k equal_iterator =
  it_rank :: rank_type
  node :: addr
  node_dim :: dimension_type
  query :: "'k equal_key"

definition key_comp ::
  "addr \<Rightarrow> (dimension_type \<Rightarrow> 'k \<Rightarrow> 'k \<Rightarrow> bool, 'a) store \<Rightarrow> dimension_type \<Rightarrow> 'k \<Rightarrow> 'k \<Rightarrow> bool" where
  "key_comp container s = compare container s"

text \<open>The constructor taking the container, the model, the dimension and the node.\<close>

definition equal_iterator_ctor ::
  "addr \<Rightarrow> 'k \<Rightarrow> dimension_type \<Rightarrow> addr \<Rightarrow> (dimension_type \<Rightarrow> 'k \<Rightarrow> 'k \<Rightarrow> bool, 'a) store
     \<Rightarrow> 'k equal_iterator" where
  "equal_iterator_ctor container mdl dim p s =
     \<lparr>it_rank = rank container s, node = p, node_dim = dim,
      query = \<lparr>comp = key_comp container s, model = mdl\<rparr>\<rparr>"

definition equal_end ::
  "addr \<Rightarrow> 'k \<Rightarrow> (dimension_type \<Rightarrow> 'k \<Rightarrow> 'k \<Rightarrow> bool, 'a) store \<Rightarrow> 'k equal_iterator" where
  "equal_end container mdl s =
     equal_iterator_ctor container mdl (dimension container s - 1) (get_header container) s"

text \<open>
  \<open>preorder_minimum\<close> (spatial_preorder.hpp) walks the nodes of the tree from the root;
  it is the parameter \<open>preorder_minimum\<close>, given the store it reads.
\<close>

definition equal_begin ::
  "((dimension_type \<Rightarrow> 'k \<Rightarrow> 'k \<Rightarrow> bool, 'a) store \<Rightarrow> addr \<Rightarrow> dimension_type \<Rightarrow> rank_type
      \<Rightarrow> 'k equal_key \<Rightarrow> addr \<times> dimension_type)
   \<Rightarrow> addr \<Rightarrow> 'k \<Rightarrow> (dimension_type \<Rightarrow> 'k \<Rightarrow> 'k \<Rightarrow> bool, 'a) store \<Rightarrow> 'k equal_iterator" where
  "equal_begin preorder_minimum container mdl s =
     (if empty container s then equal_end container mdl s
      else
        let root = parent (bases s (get_header container));
            (n, dim) = preorder_minimum s root 0 (rank container s)
                             \<lparr>comp = key_comp container s, model = mdl\<rparr>
        in equal_iterator_ctor container mdl dim n s)"

section \<open>The containers built on the trees (frozen_pointset.hpp, pointmap.hpp)\<close>

datatype error = InvalidRank | AllocFailed

text \<open>
  Modelled from the spec: \<open>except::check_rank_argument\<close> (its header is not among the
  sources). The spec: "a runtime rank of 0 is rejected at construction with
  \<open>InvalidRank\<close>".
\<close>

definition check_rank_argument :: "dimension_type \<Rightarrow> error + unit" where
  "check_rank_argument dim = (if dim = 0 then Inl InvalidRank else Inr ())"

text \<open>
  A constructor first initialises its base class, then runs its body; an exception
  from either leaves no object.
\<close>

definition base_then_body :: "error + 't \<Rightarrow> error + unit \<Rightarrow> error + 't" where
  "base_then_body base body =
     (case base of
        Inl e \<Rightarrow> Inl e
      | Inr t \<Rightarrow> (case body of Inl e \<Rightarrow> Inl e | Inr u \<Rightarrow> Inr t))"

text \<open>
  The constructors of the base classes \<open>Kdtree\<close> and \<open>Relaxed_kdtree\<close> are parameters of
  the constructors below: \<open>base\<close> receives the arguments written at the call, \<open>None\<close>
  standing for an argument that the call leaves out, and \<open>copy\<close> is the copy
  constructor. \<open>R\<close> is the template argument \<open>Rank\<close>, and \<open>d0\<close> the dimension of a
  \<open>Dynamic_rank()\<close> built without argument.
\<close>

subsection \<open>frozen_pointset<Rank, Key, Compare, Alloc>\<close>

definition frozen_pointset_default ::
  "(rank_type option \<Rightarrow> 'c option \<Rightarrow> 'a option \<Rightarrow> error + 't) \<Rightarrow> error + 't" where
  "frozen_pointset_default base = base None None None"

definition frozen_pointset_compare ::
  "(rank_type option \<Rightarrow> 'c option \<Rightarrow> 'a option \<Rightarrow> error + 't) \<Rightarrow> dimension_type \<Rightarrow> 'c
     \<Rightarrow> error + 't" where
  "frozen_pointset_compare base R cmp = base (Some (Static_rank R)) None None"

definition frozen_pointset_compare_alloc ::
  "(rank_type option \<Rightarrow> 'c option \<Rightarrow> 'a option \<Rightarrow> error + 't) \<Rightarrow> dimension_type \<Rightarrow> 'c \<Rightarrow> 'a
     \<Rightarrow> error + 't" where
  "frozen_pointset_compare_alloc base R cmp alloc =
     base (Some (Static_rank R)) (Some cmp) (Some alloc)"

subsection \<open>frozen_pointset<0, Key, Compare, Alloc>: the constructors taking a dimension\<close>

definition frozen_pointset0_dim ::
  "(rank_type option \<Rightarrow> 'c option \<Rightarrow> 'a option \<Rightarrow> error + 't) \<Rightarrow> dimension_type
     \<Rightarrow> error + 't" where
  "frozen_pointset0_dim base dim = base (Some (Dynamic_rank dim)) None None"

definition frozen_pointset0_dim_compare ::
  "(rank_type option \<Rightarrow> 'c option \<Rightarrow> 'a option \<Rightarrow> error + 't) \<Rightarrow> dimension_type \<Rightarrow> 'c
     \<Rightarrow> error + 't" where
  "frozen_pointset0_dim_compare base dim cmp =
     base (Some (Dynamic_rank dim)) (Some cmp) None"

definition frozen_pointset0_dim_compare_alloc ::
  "(rank_type option \<Rightarrow> 'c option \<Rightarrow> 'a option \<Rightarrow> error + 't) \<Rightarrow> dimension_type \<Rightarrow> 'c \<Rightarrow> 'a
     \<Rightarrow> error + 't" where
  "frozen_pointset0_dim_compare_alloc base dim cmp alloc =
     base (Some (Dynamic_rank dim)) (Some cmp) (Some alloc)"

subsection \<open>pointmap<Rank, Key, Mapped, Compare, BalancingPolicy, Alloc>\<close>

definition pointmap_compare ::
  "(rank_type option \<Rightarrow> 'c option \<Rightarrow> 'p option \<Rightarrow> 'a option \<Rightarrow> error + 't) \<Rightarrow> dimension_type
     \<Rightarrow> 'c \<Rightarrow> error + 't" where
  "pointmap_compare base R cmp = base (Some (Static_rank R)) None None None"

definition pointmap_compare_balancing ::
  "(rank_type option \<Rightarrow> 'c option \<Rightarrow> 'p option \<Rightarrow> 'a option \<Rightarrow> error + 't) \<Rightarrow> dimension_type
     \<Rightarrow> 'c \<Rightarrow> 'p \<Rightarrow> error + 't" where
  "pointmap_compare_balancing base R cmp balancing =
     base (Some (Static_rank R)) (Some cmp) (Some balancing) None"

definition pointmap_compare_balancing_alloc ::
  "(rank_type option \<Rightarrow> 'c option \<Rightarrow> 'p option \<Rightarrow> 'a option \<Rightarrow> error + 't) \<Rightarrow> dimension_type
     \<Rightarrow> 'c \<Rightarrow> 'p \<Rightarrow> 'a \<Rightarrow> error + 't" where
  "pointmap_compare_balancing_alloc base R cmp balancing alloc =
     base (Some (Static_rank R)) (Some cmp) (Some balancing) (Some alloc)"

subsection \<open>pointmap<0, ...> and runtime_pointmap\<close>

text \<open>
  The two classes declare the same nine constructors; a value of \<open>ctor_args\<close> is the
  argument list of one of them, in the order of declaration.
\<close>

datatype ('c, 'p, 'a, 't) ctor_args =
    Args_none
  | Args_dim dimension_type
  | Args_dim_compare dimension_type 'c
  | Args_dim_compare_policy dimension_type 'c 'p
  | Args_dim_compare_policy_alloc dimension_type 'c 'p 'a
  | Args_compare 'c
  | Args_compare_policy 'c 'p
  | Args_compare_policy_alloc 'c 'p 'a
  | Args_other 't

fun pointmap0 ::
  "(rank_type option \<Rightarrow> 'c option \<Rightarrow> 'p option \<Rightarrow> 'a option \<Rightarrow> error + 't) \<Rightarrow> ('t \<Rightarrow> error + 't)
     \<Rightarrow> dimension_type \<Rightarrow> ('c, 'p, 'a, 't) ctor_args \<Rightarrow> error + 't" where
  "pointmap0 base copy d0 Args_none = base None None None None"
| "pointmap0 base copy d0 (Args_dim dim) =
     base_then_body (base (Some (Dynamic_rank dim)) None None None) (check_rank_argument dim)"
| "pointmap0 base copy d0 (Args_dim_compare dim cmp) =
     base_then_body (base (Some (Dynamic_rank dim)) (Some cmp) None None)
       (check_rank_argument dim)"
| "pointmap0 base copy d0 (Args_dim_compare_policy dim cmp policy) =
     base_then_body (base (Some (Dynamic_rank dim)) (Some cmp) (Some policy) None)
       (check_rank_argument dim)"
| "pointmap0 base copy d0 (Args_dim_compare_policy_alloc dim cmp policy alloc) =
     base_then_body (base (Some (Dynamic_rank dim)) (Some cmp) (Some policy) (Some alloc))
       (check_rank_argument dim)"
| "pointmap0 base copy d0 (Args_compare cmp) =
     base (Some (Dynamic_rank d0)) (Some cmp) None None"
| "pointmap0 base copy d0 (Args_compare_policy cmp policy) =
     base (Some (Dynamic_rank d0)) (Some cmp) (Some policy) None"
| "pointmap0 base copy d0 (Args_compare_policy_alloc cmp policy alloc) =
     base (Some (Dynamic_rank d0)) (Some cmp) (Some policy) (Some alloc)"
| "pointmap0 base copy d0 (Args_other other) = copy other"

fun runtime_pointmap ::
  "(rank_type option \<Rightarrow> 'c option \<Rightarrow> 'p option \<Rightarrow> 'a option \<Rightarrow> error + 't) \<Rightarrow> ('t \<Rightarrow> error + 't)
     \<Rightarrow> dimension_type \<Rightarrow> ('c, 'p, 'a, 't) ctor_args \<Rightarrow> error + 't" where
  "runtime_pointmap base copy d0 Args_none = base None None None None"
| "runtime_pointmap base copy d0 (Args_dim dim) =
     base_then_body (base (Some (Dynamic_rank dim)) None None None) (check_rank_argument dim)"
| "runtime_pointmap base copy d0 (Args_dim_compare dim cmp) =
     base_then_body (base (Some (Dynamic_rank dim)) (Some cmp) None None)
       (check_rank_argument dim)"
| "runtime_pointmap base copy d0 (Args_dim_compare_policy dim cmp policy) =
     base_then_body (base (Some (Dynamic_rank dim)) (Some cmp) (Some policy) None)
       (check_rank_argument dim)"
| "runtime_pointmap base copy d0 (Args_dim_compare_policy_alloc dim cmp policy alloc) =
     base_then_body (base (Some (Dynamic_rank dim)) (Some cmp) (Some policy) (Some alloc))
       (check_rank_argument dim)"
| "runtime_pointmap base copy d0 (Args_compare cmp) =
     base (Some (Dynamic_rank d0)) (Some cmp) None None"
| "runtime_pointmap base copy d0 (Args_compare_policy cmp policy) =
     base (Some (Dynamic_rank d0)) (Some cmp) (Some policy) None"
| "runtime_pointmap base copy d0 (Args_compare_policy_alloc cmp policy alloc) =
     base (Some (Dynamic_rank d0)) (Some cmp) (Some policy) (Some alloc)"
| "runtime_pointmap base copy d0 (Args_other other) = copy other"

subsection \<open>The base-class constructors\<close>

text \<open>
  Modelled from the spec: the constructors of \<open>Kdtree\<close> and \<open>Relaxed_kdtree\<close> (their
  headers are not among the sources). The spec: construction is "with rank (if
  dynamic), comparator, (relaxed only) balancing policy, allocator", and the containers
  are "mere parameter bindings over the engine". As in the constructor of \<open>Kdtree_base\<close>,
  an argument left out is default-constructed: \<open>rank0\<close>, \<open>compare0\<close>, \<open>policy0\<close> and
  \<open>alloc0\<close> stand for \<open>Rank()\<close>, \<open>Compare()\<close>, \<open>BalancingPolicy()\<close> and \<open>Alloc()\<close>. The
  members end up in the \<open>Implementation\<close> of \<open>Kdtree_base\<close>, which checks nothing.
\<close>

record ('c, 'p, 'a) relaxed_implementation =
  rimpl_rank :: rank_type
  rimpl_compare :: 'c
  rimpl_balancing :: 'p
  rimpl_node_allocator :: 'a

definition or_default :: "'x \<Rightarrow> 'x option \<Rightarrow> 'x" where
  "or_default d v = (case v of None \<Rightarrow> d | Some x \<Rightarrow> x)"

definition Kdtree ::
  "rank_type \<Rightarrow> 'c \<Rightarrow> 'a \<Rightarrow> rank_type option \<Rightarrow> 'c option \<Rightarrow> 'a option
     \<Rightarrow> error + ('c, 'a) implementation" where
  "Kdtree rank0 compare0 alloc0 r cmp alloc =
     Inr \<lparr>impl_rank = or_default rank0 r,
          impl_compare = or_default compare0 cmp,
          impl_node_allocator = or_default alloc0 alloc\<rparr>"

definition Relaxed_kdtree ::
  "rank_type \<Rightarrow> 'c \<Rightarrow> 'p \<Rightarrow> 'a \<Rightarrow> rank_type option \<Rightarrow> 'c option \<Rightarrow> 'p option \<Rightarrow> 'a option
     \<Rightarrow> error + ('c, 'p, 'a) relaxed_implementation" where
  "Relaxed_kdtree rank0 compare0 policy0 alloc0 r cmp policy alloc =
     Inr \<lparr>rimpl_rank = or_default rank0 r,
          rimpl_compare = or_default compare0 cmp,
          rimpl_balancing = or_default policy0 policy,
          rimpl_node_allocator = or_default alloc0 alloc\<rparr>"

section \<open>Example inputs\<close>

text \<open>
  Modelled from the spec: \<open>bracket_less\<close> (its header is not among the sources), the
  "bracket-index comparator" that the containers use by default: it compares two keys
  by their coordinate \<open>key[dim]\<close> on one axis. A key is the function from the axis to the
  coordinate.
\<close>

type_synonym point = "dimension_type \<Rightarrow> int"

definition point2 :: "int \<Rightarrow> int \<Rightarrow> point" where
  "point2 x y dim = (if dim = 0 then x else y)"

definition bracket_less :: "dimension_type \<Rightarrow> point \<Rightarrow> point \<Rightarrow> bool" where
  "bracket_less dim x y = (x dim < y dim)"

text \<open>A store with nothing built in it yet.\<close>

definition blank_store :: "'c \<Rightarrow> 'a \<Rightarrow> ('c, 'a) store" where
  "blank_store c a =
     \<lparr>impls = (\<lambda>p. \<lparr>impl_rank = Dynamic_rank 1, impl_compare = c, impl_node_allocator = a\<rparr>),
      bases = (\<lambda>p. \<lparr>parent = 0, left = 0, right = 0\<rparr>),
      leftmosts = (\<lambda>p. 0)\<rparr>"

text \<open>
  Two empty trees, at addresses 1 and 2, with ranks 2 and 3, comparators \<open>c1\<close> and \<open>c2\<close>
  and allocators \<open>a1\<close> and \<open>a2\<close>: the store that the constructor \<open>Kdtree_base\<close> leaves
  when it has run at both addresses.
\<close>

definition two_empty_trees :: "'c \<Rightarrow> 'a \<Rightarrow> 'c \<Rightarrow> 'a \<Rightarrow> ('c, 'a) store" where
  "two_empty_trees c1 a1 c2 a2 =
     \<lparr>impls = (impls (blank_store c1 a1))
        (1 := \<lparr>impl_rank = Dynamic_rank 2, impl_compare = c1, impl_node_allocator = a1\<rparr>,
         2 := \<lparr>impl_rank = Dynamic_rank 3, impl_compare = c2, impl_node_allocator = a2\<rparr>),
      bases = (bases (blank_store c1 a1))
        (1 := \<lparr>parent = 1, left = 1, right = 1\<rparr>,
         2 := \<lparr>parent = 2, left = 2, right = 2\<rparr>),
      leftmosts = (leftmosts (blank_store c1 a1))(1 := 1, 2 := 2)\<rparr>"

text \<open>
  The same two trees after the tree at 2 has received a single node, at address 3: the
  node is the root, the rightmost and the leftmost node, and its parent is the header.
\<close>

definition empty_and_singleton :: "'c \<Rightarrow> 'a \<Rightarrow> 'c \<Rightarrow> 'a \<Rightarrow> ('c, 'a) store" where
  "empty_and_singleton c1 a1 c2 a2 =
     (two_empty_trees c1 a1 c2 a2)
       \<lparr>bases := (bases (two_empty_trees c1 a1 c2 a2))
          (2 := \<lparr>parent = 3, left = 2, right = 3\<rparr>,
           3 := \<lparr>parent = 2, left = 0, right = 0\<rparr>),
        leftmosts := (leftmosts (two_empty_trees c1 a1 c2 a2))(2 := 3)\<rparr>"

text \<open>Two trees of one node each: the tree at 1 also receives a node, at address 4.\<close>

definition two_singletons :: "'c \<Rightarrow> 'a \<Rightarrow> 'c \<Rightarrow> 'a \<Rightarrow> ('c, 'a) store" where
  "two_singletons c1 a1 c2 a2 =
     (empty_and_singleton c1 a1 c2 a2)
       \<lparr>bases := (bases (empty_and_singleton c1 a1 c2 a2))
          (1 := \<lparr>parent = 4, left = 1, right = 4\<rparr>,
           4 := \<lparr>parent = 1, left = 0, right = 0\<rparr>),
        leftmosts := (leftmosts (empty_and_singleton c1 a1 c2 a2))(1 := 4)\<rparr>"

text \<open>A node memory with one block in use, at address 5, holding the key 9.\<close>

definition busy_memory :: "int node_memory" where
  "busy_memory = \<lparr>allocated = [(5, 1)], key_field = (\<lambda>p. None)(5 := Some 9)\<rparr>"

section \<open>Properties of the equal iterator\<close>

subsection \<open>The loop of \<open>stop_traversal\<close>\<close>

lemma word_step: "(i :: dimension_type) < r \<Longrightarrow> (i \<le> a) = (a = i \<or> i + 1 \<le> a)"
  by (metis inc_le interval_class.inc_less_eq_imp_less word_le_less_eq)

lemma stop_traversal_loop_reaches_rank:
  "i \<le> r \<Longrightarrow>
   (stop_traversal_loop cmp key mdl r i = r) =
   (\<forall>a. i \<le> a \<and> a < r \<longrightarrow> \<not> cmp a key mdl \<and> \<not> cmp a mdl key)"
proof (induction cmp key mdl r i rule: stop_traversal_loop.induct)
  case (1 cmp key mdl r i)
  show ?case
  proof (cases "i < r \<and> \<not> cmp i key mdl \<and> \<not> cmp i mdl key")
    case True
    then have le: "i + 1 \<le> r" by (simp add: inc_le)
    have step: "\<And>a. (i \<le> a) = (a = i \<or> i + 1 \<le> a)"
      using True word_step by blast
    have "(stop_traversal_loop cmp key mdl r i = r)
        = (stop_traversal_loop cmp key mdl r (i + 1) = r)"
      using True by (subst stop_traversal_loop.simps) simp
    also have "\<dots> = (\<forall>a. i + 1 \<le> a \<and> a < r \<longrightarrow> \<not> cmp a key mdl \<and> \<not> cmp a mdl key)"
      using "1.IH" [OF True le] .
    also have "\<dots> = (\<forall>a. i \<le> a \<and> a < r \<longrightarrow> \<not> cmp a key mdl \<and> \<not> cmp a mdl key)"
      using True by (auto simp: step)
    finally show ?thesis .
  next
    case False
    have ret: "stop_traversal_loop cmp key mdl r i = i"
      using False by (subst stop_traversal_loop.simps) auto
    show ?thesis
    proof (cases "i < r")
      case True
      with False have bad: "cmp i key mdl \<or> cmp i mdl key" by blast
      from True have "i \<noteq> r" by simp
      with True bad ret show ?thesis by auto
    next
      case nlt: False
      with "1.prems" have "i = r" by simp
      with ret show ?thesis by auto
    qed
  qed
qed

text \<open>
  Claim C6. \<open>stop_traversal\<close> accepts a node exactly when its key is equivalent to the
  model on every axis below the rank: on no axis is the key less than the model or the
  model less than the key.
\<close>

theorem stop_traversal_iff_equivalent:
  "stop_traversal const_key nd rk equal =
     (\<forall>a<rank_call rk. \<not> comp equal a (const_key nd) (model equal)
                       \<and> \<not> comp equal a (model equal) (const_key nd))"
  unfolding stop_traversal_def
  using stop_traversal_loop_reaches_rank
    [of 0 "rank_call rk" "comp equal" "const_key nd" "model equal"]
  by simp

text \<open>
  At rank 2 the key (5, 4) matches the model (5, 4) and does not match the model (5, 3),
  from which it differs on axis 1.
\<close>

theorem stop_traversal_iff_equivalent_witness:
  "stop_traversal (\<lambda>n. point2 5 4) 3 (Dynamic_rank 2)
     \<lparr>comp = bracket_less, model = point2 5 4\<rparr>
   \<and> \<not> stop_traversal (\<lambda>n. point2 5 4) 3 (Dynamic_rank 2)
     \<lparr>comp = bracket_less, model = point2 5 3\<rparr>"
proof -
  have "(1 :: dimension_type) < 2 \<and> bracket_less 1 (point2 5 3) (point2 5 4)"
    by (simp add: bracket_less_def point2_def)
  then show ?thesis
    using stop_traversal_iff_equivalent
        [of "\<lambda>n. point2 5 4" 3 "Dynamic_rank 2" "\<lparr>comp = bracket_less, model = point2 5 4\<rparr>"]
      stop_traversal_iff_equivalent
        [of "\<lambda>n. point2 5 4" 3 "Dynamic_rank 2" "\<lparr>comp = bracket_less, model = point2 5 3\<rparr>"]
    by (auto simp: bracket_less_def)
qed

subsection \<open>Pruning\<close>

text \<open>
  Claim C1, as the code has it. Descent into the left subtree is permitted, in the
  strict-invariant variant, exactly when the model is strictly less than the node's key
  on the axis (the node's key is strictly greater than the model); and in the
  relaxed-invariant variant, exactly when the node's key is not strictly less than the
  model on the axis.
\<close>

theorem left_traversal_rule:
  "left_traversal strict_invariant_tag const_key nd dim rk equal
     = comp equal dim (model equal) (const_key nd)
   \<and> left_traversal relaxed_invariant_tag const_key nd dim rk equal
     = (\<not> comp equal dim (const_key nd) (model equal))"
  by (simp add: left_traversal_def left_traversal_strict_def left_traversal_relaxed_def)

text \<open>
  On axis 0, with the key (5, 4) and the model (5, 4): the strict variant does not go
  left and the relaxed variant does.
\<close>

theorem left_traversal_rule_witness:
  "\<not> left_traversal strict_invariant_tag (\<lambda>n. point2 5 4) 3 0 (Static_rank 2)
       \<lparr>comp = bracket_less, model = point2 5 4\<rparr>
   \<and> left_traversal relaxed_invariant_tag (\<lambda>n. point2 5 4) 3 0 (Static_rank 2)
       \<lparr>comp = bracket_less, model = point2 5 4\<rparr>"
  using left_traversal_rule
    [of "\<lambda>n. point2 5 4" 3 0 "Static_rank 2" "\<lparr>comp = bracket_less, model = point2 5 4\<rparr>"]
  by (simp add: bracket_less_def)

text \<open>
  Claim C1 as stated gives the strict variant the test "the node's key is not strictly
  less than the model" and the relaxed variant the test "the node's key is strictly
  greater than the model". Both equivalences fail where the key and the model agree on
  the axis: key (5, 4), model (5, 4), axis 0.
\<close>

theorem left_traversal_claim_refuted:
  "\<not> (left_traversal strict_invariant_tag (\<lambda>n. point2 5 4) 3 0 (Static_rank 2)
          \<lparr>comp = bracket_less, model = point2 5 4\<rparr>
        = (\<not> bracket_less 0 (point2 5 4) (point2 5 4)))
   \<and> \<not> (left_traversal relaxed_invariant_tag (\<lambda>n. point2 5 4) 3 0 (Static_rank 2)
          \<lparr>comp = bracket_less, model = point2 5 4\<rparr>
        = bracket_less 0 (point2 5 4) (point2 5 4))"
  by (simp add: left_traversal_def left_traversal_strict_def left_traversal_relaxed_def
      bracket_less_def)

text \<open>
  Claim C5. Descent into the right subtree is permitted exactly when the model is not
  strictly less than the node's key on the axis. \<open>right_traversal\<close> has no overload per
  invariant: the test is the same in both variants.
\<close>

theorem right_traversal_rule:
  "right_traversal const_key nd dim rk equal
     = (\<not> comp equal dim (model equal) (const_key nd))"
  by (simp add: right_traversal_def)

text \<open>With the model (5, 4): right of the key (5, 9) on axis 0, not on axis 1.\<close>

theorem right_traversal_rule_witness:
  "right_traversal (\<lambda>n. point2 5 9) 3 0 (Static_rank 2)
     \<lparr>comp = bracket_less, model = point2 5 4\<rparr>
   \<and> \<not> right_traversal (\<lambda>n. point2 5 9) 3 1 (Static_rank 2)
     \<lparr>comp = bracket_less, model = point2 5 4\<rparr>"
  using right_traversal_rule
      [of "\<lambda>n. point2 5 9" 3 0 "Static_rank 2" "\<lparr>comp = bracket_less, model = point2 5 4\<rparr>"]
    right_traversal_rule
      [of "\<lambda>n. point2 5 9" 3 1 "Static_rank 2" "\<lparr>comp = bracket_less, model = point2 5 4\<rparr>"]
  by (simp add: bracket_less_def point2_def)

subsection \<open>Begin on an empty container\<close>

text \<open>
  Claim C9. On an empty container \<open>equal_begin\<close> returns the iterator that \<open>equal_end\<close>
  returns, positioned at the header. No node is inspected: the result does not depend
  on \<open>preorder_minimum\<close>, and the same call in any store that agrees on the members and
  the header of the container returns the same iterator.
\<close>

theorem equal_begin_empty:
  assumes "empty container s"
    and "impls s' container = impls s container"
    and "bases s' container = bases s container"
  shows "equal_begin preorder_minimum container mdl s = equal_end container mdl s
    \<and> node (equal_begin preorder_minimum container mdl s) = get_header container
    \<and> equal_begin preorder_minimum' container mdl s' = equal_begin preorder_minimum container mdl s"
  using assms
  by (simp add: equal_begin_def equal_end_def equal_iterator_ctor_def empty_def get_root_def
      get_header_def key_comp_def compare_def rank_def dimension_def)

text \<open>
  The empty tree of rank 2 at address 1: the iterator is at the header, with dimension
  1, also when another tree of the store holds a node.
\<close>

theorem equal_begin_empty_witness:
  "empty 1 (two_empty_trees bracket_less (100 :: nat) bracket_less 200)
   \<and> equal_begin (\<lambda>s p d r q. (p, d)) 1 (point2 5 4)
         (two_empty_trees bracket_less (100 :: nat) bracket_less 200)
       = equal_end 1 (point2 5 4) (two_empty_trees bracket_less (100 :: nat) bracket_less 200)
   \<and> node (equal_begin (\<lambda>s p d r q. (p, d)) 1 (point2 5 4)
         (two_empty_trees bracket_less (100 :: nat) bracket_less 200)) = 1
   \<and> node_dim (equal_begin (\<lambda>s p d r q. (p, d)) 1 (point2 5 4)
         (two_empty_trees bracket_less (100 :: nat) bracket_less 200)) = 1
   \<and> equal_begin (\<lambda>s p d r q. (0, 0)) 1 (point2 5 4)
         (empty_and_singleton bracket_less (100 :: nat) bracket_less 200)
       = equal_begin (\<lambda>s p d r q. (p, d)) 1 (point2 5 4)
           (two_empty_trees bracket_less (100 :: nat) bracket_less 200)"
proof -
  have h: "empty 1 (two_empty_trees bracket_less (100 :: nat) bracket_less 200)"
    "impls (empty_and_singleton bracket_less (100 :: nat) bracket_less 200) 1
       = impls (two_empty_trees bracket_less (100 :: nat) bracket_less 200) 1"
    "bases (empty_and_singleton bracket_less (100 :: nat) bracket_less 200) 1
       = bases (two_empty_trees bracket_less (100 :: nat) bracket_less 200) 1"
    by (simp_all add: empty_def get_root_def get_header_def two_empty_trees_def
        empty_and_singleton_def)
  have d: "node_dim (equal_end 1 (point2 5 4)
      (two_empty_trees bracket_less (100 :: nat) bracket_less 200)) = 1"
    by (simp add: equal_end_def equal_iterator_ctor_def dimension_def rank_def
        two_empty_trees_def)
  note r = equal_begin_empty
    [OF h, of "\<lambda>s p d r q. (p, d)" "point2 5 4" "\<lambda>s p d r q. (0, 0)", unfolded get_header_def]
  from r have e: "equal_begin (\<lambda>s p d r q. (p, d)) 1 (point2 5 4)
        (two_empty_trees bracket_less (100 :: nat) bracket_less 200)
      = equal_end 1 (point2 5 4) (two_empty_trees bracket_less (100 :: nat) bracket_less 200)"
    by (rule conjunct1)
  show ?thesis
    using h(1) d r unfolding e by simp
qed

section \<open>Properties of \<open>swap\<close>\<close>

subsection \<open>Reading the store after a write\<close>

lemma bases_member_swaps [simp]:
  "bases (swap_rank a b s) = bases s"
  "bases (swap_compare a b s) = bases s"
  "bases (swap_node_allocator a b s) = bases s"
  "leftmosts (swap_rank a b s) = leftmosts s"
  "leftmosts (swap_compare a b s) = leftmosts s"
  "leftmosts (swap_node_allocator a b s) = leftmosts s"
  by (simp_all add: swap_rank_def swap_compare_def swap_node_allocator_def Let_def)

lemma links_setters [simp]:
  "bases (set_parent p v s) = (bases s)(p := (bases s p)\<lparr>parent := v\<rparr>)"
  "bases (set_right p v s) = (bases s)(p := (bases s p)\<lparr>right := v\<rparr>)"
  "bases (set_left p v s) = (bases s)(p := (bases s p)\<lparr>left := v\<rparr>)"
  "bases (set_leftmost p v s) = bases s"
  "leftmosts (set_parent p v s) = leftmosts s"
  "leftmosts (set_right p v s) = leftmosts s"
  "leftmosts (set_left p v s) = leftmosts s"
  "leftmosts (set_leftmost p v s) = (leftmosts s)(p := v)"
  "impls (set_parent p v s) = impls s"
  "impls (set_right p v s) = impls s"
  "impls (set_left p v s) = impls s"
  "impls (set_leftmost p v s) = impls s"
  by (simp_all add: set_parent_def set_right_def set_left_def set_leftmost_def)

text \<open>The example store of two empty trees is the one the constructor builds.\<close>

lemma two_empty_trees_built:
  "two_empty_trees c1 a1 c2 a2
     = Kdtree_base 2 (Dynamic_rank 3) c2 a2
         (Kdtree_base 1 (Dynamic_rank 2) c1 a1 (blank_store c1 a1))"
  by (simp add: two_empty_trees_def Kdtree_base_def initialize_def blank_store_def
      set_parent_def set_left_def set_right_def set_leftmost_def fun_upd_twist)

lemmas example_defs = two_empty_trees_def empty_and_singleton_def two_singletons_def
  blank_store_def

subsection \<open>The statements of \<open>swap\<close> that follow the member swaps\<close>

lemma swap_unfold:
  "swap this other s =
     (if empty this s \<and> empty other s then s
      else swap_links this other
             (swap_node_allocator this other (swap_compare this other (swap_rank this other s))))"
  by (simp add: swap_def swap_links_def Let_def)

lemma swap_returns_early: "empty this s \<Longrightarrow> empty other s \<Longrightarrow> swap this other s = s"
  by (simp add: swap_def)

lemma swap_links_this_empty:
  assumes "this \<noteq> other" and "parent (bases s this) = this"
    and "parent (bases s other) \<noteq> this" and "parent (bases s other) \<noteq> other"
  shows "parent (bases (swap_links this other s) this) = parent (bases s other)"
    and "right (bases (swap_links this other s) this) = right (bases s other)"
    and "leftmosts (swap_links this other s) this = leftmosts s other"
    and "parent (bases (swap_links this other s) other) = other"
    and "right (bases (swap_links this other s) other) = other"
    and "leftmosts (swap_links this other s) other = other"
    and "parent (bases (swap_links this other s) (parent (bases s other))) = this"
  using assms
  by (simp_all add: swap_links_def stitch_def swap_parent_def swap_right_def swap_leftmost_def
      relink_def Let_def)

lemma swap_links_other_empty:
  assumes "this \<noteq> other" and "parent (bases s other) = other"
    and "parent (bases s this) \<noteq> this" and "parent (bases s this) \<noteq> other"
  shows "parent (bases (swap_links this other s) other) = parent (bases s this)"
    and "right (bases (swap_links this other s) other) = right (bases s this)"
    and "leftmosts (swap_links this other s) other = leftmosts s this"
    and "parent (bases (swap_links this other s) this) = this"
    and "right (bases (swap_links this other s) this) = this"
    and "leftmosts (swap_links this other s) this = this"
    and "parent (bases (swap_links this other s) (parent (bases s this))) = other"
  using assms
  by (simp_all add: swap_links_def stitch_def swap_parent_def swap_right_def swap_leftmost_def
      relink_def Let_def)

lemma swap_links_both_nonempty:
  assumes "this \<noteq> other"
    and "parent (bases s this) \<noteq> this" and "parent (bases s this) \<noteq> other"
    and "parent (bases s other) \<noteq> this" and "parent (bases s other) \<noteq> other"
  shows "parent (bases (swap_links this other s) other) = parent (bases s this)"
    and "right (bases (swap_links this other s) other) = right (bases s this)"
    and "leftmosts (swap_links this other s) other = leftmosts s this"
    and "parent (bases (swap_links this other s) this) = parent (bases s other)"
    and "right (bases (swap_links this other s) this) = right (bases s other)"
    and "leftmosts (swap_links this other s) this = leftmosts s other"
  using assms
  by (simp_all add: swap_links_def stitch_def swap_parent_def swap_right_def swap_leftmost_def
      relink_def Let_def)

lemma impls_swap_links [simp]: "impls (swap_links this other s) = impls s"
  by (simp add: swap_links_def stitch_def swap_parent_def swap_right_def swap_leftmost_def
      relink_def Let_def)

lemma impls_member_swaps:
  assumes "this \<noteq> other"
  shows "impl_rank (impls (swap_node_allocator this other
            (swap_compare this other (swap_rank this other s))) this) = impl_rank (impls s other)"
    and "impl_rank (impls (swap_node_allocator this other
            (swap_compare this other (swap_rank this other s))) other) = impl_rank (impls s this)"
    and "impl_compare (impls (swap_node_allocator this other
            (swap_compare this other (swap_rank this other s))) this)
          = impl_compare (impls s other)"
    and "impl_compare (impls (swap_node_allocator this other
            (swap_compare this other (swap_rank this other s))) other)
          = impl_compare (impls s this)"
    and "impl_node_allocator (impls (swap_node_allocator this other
            (swap_compare this other (swap_rank this other s))) this)
          = impl_node_allocator (impls s other)"
    and "impl_node_allocator (impls (swap_node_allocator this other
            (swap_compare this other (swap_rank this other s))) other)
          = impl_node_allocator (impls s this)"
  using assms
  by (simp_all add: swap_rank_def swap_compare_def swap_node_allocator_def Let_def)

text \<open>A non-empty tree swapped with itself keeps its members and its header.\<close>

lemma swap_self:
  assumes "parent (bases s this) \<noteq> this"
  shows "impls (swap this this s) = impls s"
    and "bases (swap this this s) this = bases s this"
    and "leftmosts (swap this this s) = leftmosts s"
  using assms
  by (simp_all add: swap_def empty_def get_root_def get_header_def swap_rank_def swap_compare_def
      swap_node_allocator_def stitch_def swap_parent_def swap_right_def swap_leftmost_def
      relink_def Let_def)

lemma swap_distinct_exchanges:
  assumes ne: "this \<noteq> other"
    and nb: "\<not> (empty this s \<and> empty other s)"
    and r1: "get_root this s \<noteq> get_header other"
    and r2: "get_root other s \<noteq> get_header this"
  shows "rank this (swap this other s) = rank other s"
    and "rank other (swap this other s) = rank this s"
    and "compare this (swap this other s) = compare other s"
    and "compare other (swap this other s) = compare this s"
    and "node_allocator this (swap this other s) = node_allocator other s"
    and "node_allocator other (swap this other s) = node_allocator this s"
    and "header_contents this (swap this other s) = header_contents other s"
    and "header_contents other (swap this other s) = header_contents this s"
proof -
  let ?m = "swap_node_allocator this other (swap_compare this other (swap_rank this other s))"
  have sw: "swap this other s = swap_links this other ?m"
    unfolding swap_unfold using nb by (rule if_not_P)
  note m = impls_member_swaps [OF ne, of s]
  show "rank this (swap this other s) = rank other s"
    by (simp add: sw rank_def m)
  show "rank other (swap this other s) = rank this s"
    by (simp add: sw rank_def m)
  show "compare this (swap this other s) = compare other s"
    by (simp add: sw compare_def m)
  show "compare other (swap this other s) = compare this s"
    by (simp add: sw compare_def m)
  show "node_allocator this (swap this other s) = node_allocator other s"
    by (simp add: sw node_allocator_def m)
  show "node_allocator other (swap this other s) = node_allocator this s"
    by (simp add: sw node_allocator_def m)
  from r1 r2 have ro: "parent (bases ?m this) \<noteq> other" "parent (bases ?m other) \<noteq> this"
    by (simp_all add: get_root_def get_header_def)
  consider (a) "parent (bases s this) = this" "parent (bases s other) \<noteq> other"
    | (b) "parent (bases s this) \<noteq> this" "parent (bases s other) = other"
    | (c) "parent (bases s this) \<noteq> this" "parent (bases s other) \<noteq> other"
    using nb by (auto simp: empty_def get_root_def get_header_def)
  then have hc: "header_contents this (swap this other s) = header_contents other s
      \<and> header_contents other (swap this other s) = header_contents this s"
  proof cases
    case a
    then have a': "parent (bases ?m this) = this" "parent (bases ?m other) \<noteq> other"
      by simp_all
    note r = swap_links_this_empty [OF ne a'(1) ro(2) a'(2), simplified]
    show ?thesis using a ro
      by (simp add: sw header_contents_def empty_def get_root_def get_header_def
          get_rightmost_def get_leftmost_def r)
  next
    case b
    then have b': "parent (bases ?m other) = other" "parent (bases ?m this) \<noteq> this"
      by simp_all
    note r = swap_links_other_empty [OF ne b'(1) b'(2) ro(1), simplified]
    show ?thesis using b ro
      by (simp add: sw header_contents_def empty_def get_root_def get_header_def
          get_rightmost_def get_leftmost_def r)
  next
    case c
    then have c': "parent (bases ?m this) \<noteq> this" "parent (bases ?m other) \<noteq> other"
      by simp_all
    note r = swap_links_both_nonempty [OF ne c'(1) ro(1) ro(2) c'(2), simplified]
    show ?thesis using c ro
      by (simp add: sw header_contents_def empty_def get_root_def get_header_def
          get_rightmost_def get_leftmost_def r)
  qed
  from hc show "header_contents this (swap this other s) = header_contents other s" by simp
  from hc show "header_contents other (swap this other s) = header_contents this s" by simp
qed

subsection \<open>What \<open>swap\<close> exchanges\<close>

text \<open>
  Claim C2, as the code has it. When the two trees are not both empty, and the root of
  neither is the header of the other, \<open>swap\<close> exchanges their rank, comparator, allocator
  and header contents. When both trees are empty, \<open>swap\<close> returns at once and changes
  nothing: each tree keeps its own rank, comparator and allocator.
\<close>

theorem swap_exchanges_unless_both_empty:
  "(empty this s \<and> empty other s \<longrightarrow> swap this other s = s)
   \<and> (\<not> (empty this s \<and> empty other s)
        \<and> get_root this s \<noteq> get_header other \<and> get_root other s \<noteq> get_header this \<longrightarrow>
        rank this (swap this other s) = rank other s
      \<and> rank other (swap this other s) = rank this s
      \<and> compare this (swap this other s) = compare other s
      \<and> compare other (swap this other s) = compare this s
      \<and> node_allocator this (swap this other s) = node_allocator other s
      \<and> node_allocator other (swap this other s) = node_allocator this s
      \<and> header_contents this (swap this other s) = header_contents other s
      \<and> header_contents other (swap this other s) = header_contents this s)"
proof (rule conjI)
  show "empty this s \<and> empty other s \<longrightarrow> swap this other s = s"
    by (simp add: swap_returns_early)
next
  have "rank this (swap this other s) = rank other s
      \<and> rank other (swap this other s) = rank this s
      \<and> compare this (swap this other s) = compare other s
      \<and> compare other (swap this other s) = compare this s
      \<and> node_allocator this (swap this other s) = node_allocator other s
      \<and> node_allocator other (swap this other s) = node_allocator this s
      \<and> header_contents this (swap this other s) = header_contents other s
      \<and> header_contents other (swap this other s) = header_contents this s"
    if nb: "\<not> (empty this s \<and> empty other s)"
      and r1: "get_root this s \<noteq> get_header other"
      and r2: "get_root other s \<noteq> get_header this"
  proof (cases "this = other")
    case True
    with r1 have ne: "parent (bases s this) \<noteq> this"
      by (simp add: get_root_def get_header_def)
    show ?thesis
      using True ne swap_self [OF ne]
      by (simp add: rank_def compare_def node_allocator_def header_contents_def empty_def
          get_root_def get_header_def get_rightmost_def get_leftmost_def)
  next
    case False
    show ?thesis
      using swap_distinct_exchanges [OF False nb r1 r2] by simp
  qed
  then show "\<not> (empty this s \<and> empty other s)
        \<and> get_root this s \<noteq> get_header other \<and> get_root other s \<noteq> get_header this \<longrightarrow>
        rank this (swap this other s) = rank other s
      \<and> rank other (swap this other s) = rank this s
      \<and> compare this (swap this other s) = compare other s
      \<and> compare other (swap this other s) = compare this s
      \<and> node_allocator this (swap this other s) = node_allocator other s
      \<and> node_allocator other (swap this other s) = node_allocator this s
      \<and> header_contents this (swap this other s) = header_contents other s
      \<and> header_contents other (swap this other s) = header_contents this s"
    by blast
qed

text \<open>
  Two empty trees are left as they were; two trees of one node each, at 1 with root 4
  and at 2 with root 3, exchange everything.
\<close>

theorem swap_exchanges_unless_both_empty_witness:
  "swap 1 2 (two_empty_trees (10 :: nat) (100 :: nat) 20 200) = two_empty_trees 10 100 20 200
   \<and> rank 1 (swap 1 2 (two_singletons (10 :: nat) (100 :: nat) 20 200)) = Dynamic_rank 3
   \<and> rank 2 (swap 1 2 (two_singletons (10 :: nat) (100 :: nat) 20 200)) = Dynamic_rank 2
   \<and> compare 1 (swap 1 2 (two_singletons (10 :: nat) (100 :: nat) 20 200)) = 20
   \<and> compare 2 (swap 1 2 (two_singletons (10 :: nat) (100 :: nat) 20 200)) = 10
   \<and> node_allocator 1 (swap 1 2 (two_singletons (10 :: nat) (100 :: nat) 20 200)) = 200
   \<and> node_allocator 2 (swap 1 2 (two_singletons (10 :: nat) (100 :: nat) 20 200)) = 100
   \<and> header_contents 1 (swap 1 2 (two_singletons (10 :: nat) (100 :: nat) 20 200))
       = Some (3, 3, 3)
   \<and> header_contents 2 (swap 1 2 (two_singletons (10 :: nat) (100 :: nat) 20 200))
       = Some (4, 4, 4)"
  using swap_exchanges_unless_both_empty [of 1 "two_empty_trees (10 :: nat) (100 :: nat) 20 200" 2]
    swap_exchanges_unless_both_empty [of 1 "two_singletons (10 :: nat) (100 :: nat) 20 200" 2]
  by (simp add: example_defs empty_def get_root_def get_header_def rank_def compare_def
      node_allocator_def header_contents_def get_rightmost_def get_leftmost_def)

text \<open>
  Claim C2 as stated includes the case of two empty trees. There \<open>swap\<close> exchanges
  nothing: with ranks 2 and 3, comparators 10 and 20 and allocators 100 and 200, the
  tree at 1 does not hold the rank, the comparator or the allocator of the tree at 2
  after the call.
\<close>

theorem swap_both_empty_exchanges_nothing:
  "empty 1 (two_empty_trees (10 :: nat) (100 :: nat) 20 200)
   \<and> empty 2 (two_empty_trees (10 :: nat) (100 :: nat) 20 200)
   \<and> rank 1 (swap 1 2 (two_empty_trees (10 :: nat) (100 :: nat) 20 200))
       \<noteq> rank 2 (two_empty_trees (10 :: nat) (100 :: nat) 20 200)
   \<and> compare 1 (swap 1 2 (two_empty_trees (10 :: nat) (100 :: nat) 20 200))
       \<noteq> compare 2 (two_empty_trees (10 :: nat) (100 :: nat) 20 200)
   \<and> node_allocator 1 (swap 1 2 (two_empty_trees (10 :: nat) (100 :: nat) 20 200))
       \<noteq> node_allocator 2 (two_empty_trees (10 :: nat) (100 :: nat) 20 200)"
proof -
  have e: "empty 1 (two_empty_trees (10 :: nat) (100 :: nat) 20 200)"
      "empty 2 (two_empty_trees (10 :: nat) (100 :: nat) 20 200)"
    by (simp_all add: example_defs empty_def get_root_def get_header_def)
  have sw: "swap 1 2 (two_empty_trees (10 :: nat) (100 :: nat) 20 200)
      = two_empty_trees 10 100 20 200"
    using e by (simp add: swap_def)
  show ?thesis
    unfolding sw using e
    by (simp add: example_defs rank_def compare_def node_allocator_def)
qed

subsection \<open>One empty tree\<close>

text \<open>
  Claim C7. After \<open>swap\<close> of two trees of which exactly one is empty (the root of the
  other being a node, not a header), the tree that was empty is not empty and its root
  has that tree's header as parent; the tree that was not empty is empty, the parent,
  right and leftmost pointers of its header all pointing to that header.
\<close>

theorem swap_one_empty:
  assumes "empty this s \<noteq> empty other s"
    and "get_root this s \<noteq> get_header other"
    and "get_root other s \<noteq> get_header this"
  shows "(empty this s \<longrightarrow>
            \<not> empty this (swap this other s)
          \<and> parent (bases (swap this other s) (get_root this (swap this other s)))
              = get_header this
          \<and> empty other (swap this other s)
          \<and> parent (bases (swap this other s) (get_header other)) = get_header other
          \<and> right (bases (swap this other s) (get_header other)) = get_header other
          \<and> leftmosts (swap this other s) (get_header other) = get_header other)
       \<and> (empty other s \<longrightarrow>
            \<not> empty other (swap this other s)
          \<and> parent (bases (swap this other s) (get_root other (swap this other s)))
              = get_header other
          \<and> empty this (swap this other s)
          \<and> parent (bases (swap this other s) (get_header this)) = get_header this
          \<and> right (bases (swap this other s) (get_header this)) = get_header this
          \<and> leftmosts (swap this other s) (get_header this) = get_header this)"
proof -
  let ?m = "swap_node_allocator this other (swap_compare this other (swap_rank this other s))"
  from assms(1) have ne: "this \<noteq> other" by auto
  show ?thesis
  proof (cases "empty this s")
    case True
    with assms(1) have nonempty: "\<not> empty other s" by simp
    have sw: "swap this other s = swap_links this other ?m"
      using nonempty by (simp add: swap_unfold)
    have a: "parent (bases ?m this) = this"
      using True by (simp add: empty_def get_root_def get_header_def)
    have b: "parent (bases ?m other) \<noteq> this"
      using assms(3) by (simp add: get_root_def get_header_def)
    have c: "parent (bases ?m other) \<noteq> other"
      using nonempty by (simp add: empty_def get_root_def get_header_def)
    note r = swap_links_this_empty [OF ne a b c, simplified]
    show ?thesis
      using True nonempty b c by (simp add: sw empty_def get_root_def get_header_def r)
  next
    case False
    with assms(1) have em: "empty other s" by simp
    have sw: "swap this other s = swap_links this other ?m"
      using False by (simp add: swap_unfold)
    have a: "parent (bases ?m other) = other"
      using em by (simp add: empty_def get_root_def get_header_def)
    have b: "parent (bases ?m this) \<noteq> this"
      using False by (simp add: empty_def get_root_def get_header_def)
    have c: "parent (bases ?m this) \<noteq> other"
      using assms(2) by (simp add: get_root_def get_header_def)
    note r = swap_links_other_empty [OF ne a b c, simplified]
    show ?thesis
      using False em b c by (simp add: sw empty_def get_root_def get_header_def r)
  qed
qed

text \<open>
  The empty tree at 1 and the tree at 2 whose only node is at 3: after the call the
  node 3 is the root of the tree at 1, with parent 1, and the tree at 2 is empty. The
  same holds with the two trees in the other order.
\<close>

theorem swap_one_empty_witness:
  "empty 1 (empty_and_singleton (10 :: nat) (100 :: nat) 20 200)
   \<and> \<not> empty 2 (empty_and_singleton (10 :: nat) (100 :: nat) 20 200)
   \<and> \<not> empty 1 (swap 1 2 (empty_and_singleton (10 :: nat) (100 :: nat) 20 200))
   \<and> get_root 1 (swap 1 2 (empty_and_singleton (10 :: nat) (100 :: nat) 20 200)) = 3
   \<and> parent (bases (swap 1 2 (empty_and_singleton (10 :: nat) (100 :: nat) 20 200)) 3) = 1
   \<and> empty 2 (swap 1 2 (empty_and_singleton (10 :: nat) (100 :: nat) 20 200))
   \<and> parent (bases (swap 1 2 (empty_and_singleton (10 :: nat) (100 :: nat) 20 200)) 2) = 2
   \<and> right (bases (swap 1 2 (empty_and_singleton (10 :: nat) (100 :: nat) 20 200)) 2) = 2
   \<and> leftmosts (swap 1 2 (empty_and_singleton (10 :: nat) (100 :: nat) 20 200)) 2 = 2
   \<and> \<not> empty 1 (swap 2 1 (empty_and_singleton (10 :: nat) (100 :: nat) 20 200))
   \<and> get_root 1 (swap 2 1 (empty_and_singleton (10 :: nat) (100 :: nat) 20 200)) = 3
   \<and> parent (bases (swap 2 1 (empty_and_singleton (10 :: nat) (100 :: nat) 20 200)) 3) = 1
   \<and> empty 2 (swap 2 1 (empty_and_singleton (10 :: nat) (100 :: nat) 20 200))"
proof -
  have h: "empty 1 (empty_and_singleton (10 :: nat) (100 :: nat) 20 200)"
      "\<not> empty 2 (empty_and_singleton (10 :: nat) (100 :: nat) 20 200)"
      "get_root 1 (empty_and_singleton (10 :: nat) (100 :: nat) 20 200) \<noteq> 2"
      "get_root 2 (empty_and_singleton (10 :: nat) (100 :: nat) 20 200) \<noteq> 1"
    by (simp_all add: example_defs empty_def get_root_def get_header_def)
  have r: "get_root 1 (swap 1 2 (empty_and_singleton (10 :: nat) (100 :: nat) 20 200)) = 3"
    using h by (simp add: swap_unfold get_root_def
        swap_links_this_empty [of 1 2, simplified] empty_def get_header_def example_defs)
  have r': "get_root 1 (swap 2 1 (empty_and_singleton (10 :: nat) (100 :: nat) 20 200)) = 3"
    using h by (simp add: swap_unfold get_root_def
        swap_links_other_empty [of 2 1, simplified] empty_def get_header_def example_defs)
  show ?thesis
    using h r r' swap_one_empty [of 1 "empty_and_singleton (10 :: nat) (100 :: nat) 20 200" 2]
      swap_one_empty [of 2 "empty_and_singleton (10 :: nat) (100 :: nat) 20 200" 1]
    by (simp add: get_header_def)
qed

section \<open>Properties of node creation\<close>

text \<open>
  Claim C8. \<open>create_node\<close> asks the allocator for one block of one node. If the
  allocator throws, or if it returns a node and the copy of the key throws, the
  exception comes out with the memory as it was before the call: the node has been
  given back. If the copy succeeds, the node is returned, holding the key, and the
  memory has exactly this one block more.
\<close>

theorem create_node_atomic:
  "(allocate (allocated m) 1 = Inl e \<longrightarrow>
      create_node allocate copy_key x m = (Inl e, m))
   \<and> (allocate (allocated m) 1 = Inr p \<and> p \<noteq> 0 \<and> copy_key x = Inl e \<longrightarrow>
      create_node allocate copy_key x m = (Inl e, m))
   \<and> (allocate (allocated m) 1 = Inr p \<and> copy_key x = Inr k \<longrightarrow>
      create_node allocate copy_key x m =
        (Inr p, m\<lparr>allocated := (p, 1) # allocated m,
                  key_field := (key_field m)(p := Some k)\<rparr>))"
  by (simp add: create_node_def safe_allocator_ctor_def safe_allocator_dtor_def release_def)

text \<open>
  In a memory with one block in use: an allocator that throws, a key whose copy
  throws after the node 7 has been allocated, and a successful creation at 7.
\<close>

theorem create_node_atomic_witness:
  "create_node (\<lambda>blocks n. Inl ''bad_alloc'') (\<lambda>k. Inr k) 42 busy_memory
     = (Inl ''bad_alloc'', busy_memory)
   \<and> create_node (\<lambda>blocks n. Inr 7) (\<lambda>k. Inl ''copy failed'') 42 busy_memory
     = (Inl ''copy failed'', busy_memory)
   \<and> create_node (\<lambda>blocks n. Inr 7) (\<lambda>k. Inr k) 42 busy_memory
     = (Inr 7, \<lparr>allocated = [(7, 1), (5, 1)],
               key_field = (\<lambda>p. None)(5 := Some 9, 7 := Some 42)\<rparr>)"
  using create_node_atomic
      [of "\<lambda>blocks n. Inl ''bad_alloc''" busy_memory "''bad_alloc''" "\<lambda>k. Inr k" 42]
    create_node_atomic
      [of "\<lambda>blocks n. Inr 7" busy_memory "''copy failed''" "\<lambda>k. Inl ''copy failed''" 42 7]
    create_node_atomic
      [of "\<lambda>blocks n. Inr 7" busy_memory _ "\<lambda>k. Inr k" 42 7 42]
  by (simp add: busy_memory_def)

section \<open>Properties of the container constructors\<close>

text \<open>
  Claim C3 asks that every constructor hand the comparator it receives to the tree.
  The constructors \<open>frozen_pointset(compare)\<close> and \<open>pointmap(compare)\<close> do not: whatever
  comparator is passed, the tree is built with the default-constructed one.
\<close>

theorem compare_argument_not_forwarded:
  "frozen_pointset_compare (Kdtree (Static_rank R) compare0 alloc0) R cmp
     = Inr \<lparr>impl_rank = Static_rank R, impl_compare = compare0, impl_node_allocator = alloc0\<rparr>
   \<and> pointmap_compare (Relaxed_kdtree (Static_rank R) compare0 policy0 alloc0) R cmp
     = Inr \<lparr>rimpl_rank = Static_rank R, rimpl_compare = compare0, rimpl_balancing = policy0,
            rimpl_node_allocator = alloc0\<rparr>"
  by (simp add: frozen_pointset_compare_def pointmap_compare_def Kdtree_def Relaxed_kdtree_def
      or_default_def)

text \<open>The argument is dropped before the base class is reached, whatever the base does.\<close>

lemma compare_argument_ignored:
  "frozen_pointset_compare base R cmp = frozen_pointset_compare base R cmp'"
  "pointmap_compare rbase R cmp = pointmap_compare rbase R cmp'"
  by (simp_all add: frozen_pointset_compare_def pointmap_compare_def)

text \<open>The constructors with more arguments do forward the comparator.\<close>

lemma compare_argument_forwarded_by_siblings:
  "frozen_pointset_compare_alloc (Kdtree (Static_rank R) compare0 alloc0) R cmp alloc
     = Inr \<lparr>impl_rank = Static_rank R, impl_compare = cmp, impl_node_allocator = alloc\<rparr>"
  "pointmap_compare_balancing (Relaxed_kdtree (Static_rank R) compare0 policy0 alloc0) R cmp
       policy
     = Inr \<lparr>rimpl_rank = Static_rank R, rimpl_compare = cmp, rimpl_balancing = policy,
            rimpl_node_allocator = alloc0\<rparr>"
  by (simp_all add: frozen_pointset_compare_alloc_def pointmap_compare_balancing_def Kdtree_def
      Relaxed_kdtree_def or_default_def)

text \<open>
  Claim C4 asks that a dimension of 0 be rejected with \<open>InvalidRank\<close>. The three
  constructors of \<open>frozen_pointset<0>\<close> that take a dimension never call
  \<open>check_rank_argument\<close>: with the dimension 0 they build a tree of rank 0.
\<close>

theorem frozen_pointset0_accepts_rank_0:
  "frozen_pointset0_dim (Kdtree rank0 compare0 alloc0) 0
     = Inr \<lparr>impl_rank = Dynamic_rank 0, impl_compare = compare0, impl_node_allocator = alloc0\<rparr>
   \<and> frozen_pointset0_dim_compare (Kdtree rank0 compare0 alloc0) 0 cmp
     = Inr \<lparr>impl_rank = Dynamic_rank 0, impl_compare = cmp, impl_node_allocator = alloc0\<rparr>
   \<and> frozen_pointset0_dim_compare_alloc (Kdtree rank0 compare0 alloc0) 0 cmp alloc
     = Inr \<lparr>impl_rank = Dynamic_rank 0, impl_compare = cmp, impl_node_allocator = alloc\<rparr>"
  by (simp add: frozen_pointset0_dim_def frozen_pointset0_dim_compare_def
      frozen_pointset0_dim_compare_alloc_def Kdtree_def or_default_def)

text \<open>
  Whatever the constructor of the base class does, these constructors return what it
  returns: they add no check of their own.
\<close>

lemma frozen_pointset0_adds_no_check:
  "frozen_pointset0_dim base dim = base (Some (Dynamic_rank dim)) None None"
  "frozen_pointset0_dim_compare base dim cmp = base (Some (Dynamic_rank dim)) (Some cmp) None"
  "frozen_pointset0_dim_compare_alloc base dim cmp alloc
     = base (Some (Dynamic_rank dim)) (Some cmp) (Some alloc)"
  by (simp_all add: frozen_pointset0_dim_def frozen_pointset0_dim_compare_def
      frozen_pointset0_dim_compare_alloc_def)

text \<open>
  The four constructors of \<open>pointmap<0>\<close> that take a dimension do reject 0, and so do
  those of \<open>runtime_pointmap\<close>.
\<close>

lemma pointmap0_rejects_rank_0:
  "pointmap0 (Relaxed_kdtree rank0 compare0 policy0 alloc0) copy d0 (Args_dim 0)
     = Inl InvalidRank"
  "pointmap0 (Relaxed_kdtree rank0 compare0 policy0 alloc0) copy d0 (Args_dim_compare 0 cmp)
     = Inl InvalidRank"
  "pointmap0 (Relaxed_kdtree rank0 compare0 policy0 alloc0) copy d0
     (Args_dim_compare_policy 0 cmp policy) = Inl InvalidRank"
  "pointmap0 (Relaxed_kdtree rank0 compare0 policy0 alloc0) copy d0
     (Args_dim_compare_policy_alloc 0 cmp policy alloc) = Inl InvalidRank"
  by (simp_all add: Relaxed_kdtree_def base_then_body_def check_rank_argument_def)

lemma runtime_pointmap_rejects_rank_0:
  "runtime_pointmap (Relaxed_kdtree rank0 compare0 policy0 alloc0) copy d0 (Args_dim 0)
     = Inl InvalidRank"
  "runtime_pointmap (Relaxed_kdtree rank0 compare0 policy0 alloc0) copy d0
     (Args_dim_compare 0 cmp) = Inl InvalidRank"
  "runtime_pointmap (Relaxed_kdtree rank0 compare0 policy0 alloc0) copy d0
     (Args_dim_compare_policy 0 cmp policy) = Inl InvalidRank"
  "runtime_pointmap (Relaxed_kdtree rank0 compare0 policy0 alloc0) copy d0
     (Args_dim_compare_policy_alloc 0 cmp policy alloc) = Inl InvalidRank"
  by (simp_all add: Relaxed_kdtree_def base_then_body_def check_rank_argument_def)

text \<open>
  Claim C10. For every argument list, the constructor of \<open>pointmap<0, ...>\<close> and the
  constructor of \<open>runtime_pointmap\<close> with the same arguments give the same result,
  whatever the constructors of the base class \<open>Relaxed_kdtree\<close> do: they pass it the same
  arguments and make the same rank check.
\<close>

theorem pointmap0_eq_runtime_pointmap:
  "pointmap0 base copy d0 args = runtime_pointmap base copy d0 args"
  by (cases args) simp_all

text \<open>Both build the tree of rank 3 from the dimension 3, and both reject 0.\<close>

theorem pointmap0_eq_runtime_pointmap_witness:
  "runtime_pointmap (Relaxed_kdtree (Dynamic_rank 1) (10 :: nat) (20 :: nat) (30 :: nat)) Inr 1
      (Args_dim_compare 3 11)
     = Inr \<lparr>rimpl_rank = Dynamic_rank 3, rimpl_compare = 11, rimpl_balancing = 20,
            rimpl_node_allocator = 30\<rparr>
   \<and> runtime_pointmap (Relaxed_kdtree (Dynamic_rank 1) (10 :: nat) (20 :: nat) (30 :: nat)) Inr 1
      (Args_dim 0)
     = Inl InvalidRank"
proof -
  have "pointmap0 (Relaxed_kdtree (Dynamic_rank 1) (10 :: nat) (20 :: nat) (30 :: nat)) Inr 1
      (Args_dim_compare 3 11)
     = Inr \<lparr>rimpl_rank = Dynamic_rank 3, rimpl_compare = 11, rimpl_balancing = 20,
            rimpl_node_allocator = 30\<rparr>"
    by (simp add: Relaxed_kdtree_def base_then_body_def check_rank_argument_def or_default_def)
  moreover have "pointmap0 (Relaxed_kdtree (Dynamic_rank 1) (10 :: nat) (20 :: nat) (30 :: nat))
      Inr 1 (Args_dim 0) = Inl InvalidRank"
    by (simp add: Relaxed_kdtree_def base_then_body_def check_rank_argument_def)
  ultimately show ?thesis
    by (simp only: pointmap0_eq_runtime_pointmap)
qed

end
